theory Spec2Isabelle
  imports Complex_Main
begin

section \<open>Values shared by the three modules\<close>

text \<open>
  Exceptions are values. Only subclasses of Python's \<open>Exception\<close> are modelled, which is
  what an \<open>except Exception\<close> clause catches. \<open>Raised n\<close> is an exception that comes out
  of an external collaborator (embedder, pitch predictor, generator, resampler, ...).
\<close>

datatype error =
    NameError
  | ValueError
  | ZeroDivisionError
  | IndexError
  | TypeError
  | RuntimeError
  | Raised nat

text \<open>
  A NumPy array is its shape and its elements in row-major order. Samples are real numbers:
  the rounding of single-precision arithmetic is not modelled.
\<close>

record ndarray =
  shape :: "nat list"
  flat :: "real list"

definition ndim :: "ndarray \<Rightarrow> nat" where
  "ndim a = length (shape a)"

definition np_zeros :: "nat \<Rightarrow> ndarray" where
  "np_zeros n = \<lparr>shape = [n], flat = replicate n 0\<rparr>"

definition zeros_like :: "ndarray \<Rightarrow> ndarray" where
  "zeros_like a = \<lparr>shape = shape a, flat = replicate (prod_list (shape a)) 0\<rparr>"

definition array1 :: "real list \<Rightarrow> ndarray" where
  "array1 xs = \<lparr>shape = [length xs], flat = xs\<rparr>"

definition all_zero :: "ndarray \<Rightarrow> bool" where
  "all_zero a = list_all (\<lambda>x. x = 0) (flat a)"

section \<open>The hardware callback (rvc/lib/realtime\_audio\_utils.py)\<close>

text \<open>
  \<open>outdata.fill(0)\<close> keeps the buffer's shape and overwrites every element.
\<close>

definition fill_zero :: "ndarray \<Rightarrow> ndarray" where
  "fill_zero outdata = outdata\<lparr>flat := replicate (length (flat outdata)) 0\<rparr>"

text \<open>
  \<open>outdata[:] = processed_data\<close>, taken only when both shapes are equal: the buffer keeps
  its shape and receives the elements of the processed block.
\<close>

definition assign_all :: "ndarray \<Rightarrow> ndarray \<Rightarrow> ndarray" where
  "assign_all outdata processed_data = outdata\<lparr>flat := flat processed_data\<rparr>"

text \<open>
  The registered processing function is the module global
  \<open>process_audio_chunk_callback\<close>: \<open>None\<close> until one is set. It may raise, return
  \<open>None\<close>, or return an array. The body of the \<open>try\<close> is \<open>audio_callback_try\<close>; the
  \<open>except Exception\<close> handler fills the buffer with zeros. The result is the content of
  \<open>outdata\<close> when the callback returns (\<open>Inl\<close> would be an exception leaving it).
\<close>

type_synonym chunk_callback = "ndarray \<Rightarrow> error + ndarray option"

definition audio_callback_try :: "chunk_callback \<Rightarrow> ndarray \<Rightarrow> ndarray \<Rightarrow> error + ndarray" where
  "audio_callback_try f indata outdata =
     (case f indata of
        Inl e \<Rightarrow> Inl e
      | Inr processed_data \<Rightarrow>
          (case processed_data of
             None \<Rightarrow> Inr (fill_zero outdata)
           | Some p \<Rightarrow>
               if shape p = shape outdata then Inr (assign_all outdata p)
               else Inr (fill_zero outdata)))"

definition audio_callback :: "chunk_callback option \<Rightarrow> ndarray \<Rightarrow> ndarray \<Rightarrow> error + ndarray" where
  "audio_callback process_audio_chunk_callback indata outdata =
     (case process_audio_chunk_callback of
        Some f \<Rightarrow>
          (case audio_callback_try f indata outdata of
             Inl e \<Rightarrow> Inr (fill_zero outdata)
           | Inr out \<Rightarrow> Inr out)
      | None \<Rightarrow> Inr (fill_zero outdata))"

section \<open>The resource session (rvc/infer/realtime\_infer.py)\<close>

text \<open>
  A feature tensor of shape \<open>(1, T, C)\<close> is the list of its \<open>T\<close> frames, each a list of
  \<open>C\<close> channel values; the batch dimension of size one is implicit. A fine pitch value
  is a real number (finite by type); a coarse pitch value is the result of a float to
  integer cast, which is \<open>None\<close> when the float was not a number (NumPy gives no defined
  integer there).
\<close>

type_synonym feats = "real list list"

record gen_args =
  g_feats :: feats
  g_p_len :: nat
  g_pitch :: "int option list option"
  g_pitchf :: "real list option"
  g_sid :: "int option"

type_synonym generator = "gen_args \<Rightarrow> error + real list"

text \<open>The embedder handle: calling it, and its \<open>final_proj\<close> layer.\<close>

record hubert =
  forward :: "ndarray \<Rightarrow> error + feats"
  final_proj :: "feats \<Rightarrow> error + feats"

typedecl faiss_index

text \<open>
  \<open>rvc.infer.pipeline.Pipeline\<close> is not among the sources: its constants and the methods
  \<open>process_chunk\<close> calls on it are taken as they come, as fields of the handle.
\<close>

record pipeline =
  t_pad :: nat
  t_pad_tgt :: nat
  window :: nat
  sample_rate :: int
  f0_mel_min :: real
  f0_mel_max :: real
  autotune_f0 :: "real list \<Rightarrow> real \<Rightarrow> error + real list"
  retrieve_speaker_embeddings :: "feats \<Rightarrow> faiss_index \<Rightarrow> feats \<Rightarrow> real \<Rightarrow> error + feats"
  change_rms :: "ndarray \<Rightarrow> int \<Rightarrow> real list \<Rightarrow> int \<Rightarrow> real \<Rightarrow> error + real list"

text \<open>
  The model container as \<open>torch.load\<close> returns it: the configuration vector, the number of
  rows of \<open>emb_g.weight\<close>, and the optional keys \<open>f0\<close>, \<open>version\<close> and \<open>vocoder\<close>.
\<close>

record checkpoint =
  config :: "int list"
  emb_g_rows :: nat
  f0_flag :: "int option"
  version_tag :: "string option"
  vocoder_tag :: "string option"

type_synonym rmvpe = "ndarray \<Rightarrow> error + real list"

record session =
  hubert_model :: "hubert option"
  net_g :: "generator option"
  vc_pipeline :: "pipeline option"
  cpt :: "checkpoint option"
  version :: "string option"
  n_spk :: "int option"
  use_f0 :: "bool option"
  tgt_sr :: "int option"
  sid :: "int option"
  sid_tensor :: "int option"
  index :: "faiss_index option"
  big_npy :: "feats option"
  current_model_path :: "string option"
  current_index_path :: "string option"
  current_embedder_model :: "string option"
  model_rmvpe :: "rmvpe option"

definition init_session :: session where
  "init_session =
     \<lparr>hubert_model = None, net_g = None, vc_pipeline = None, cpt = None, version = None,
      n_spk = None, use_f0 = None, tgt_sr = None, sid = None, sid_tensor = None,
      index = None, big_npy = None, current_model_path = None, current_index_path = None,
      current_embedder_model = None, model_rmvpe = None\<rparr>"

definition is_ready :: "session \<Rightarrow> bool" where
  "is_ready s = (hubert_model s \<noteq> None \<and> net_g s \<noteq> None \<and> vc_pipeline s \<noteq> None)"

subsection \<open>Loading the generator\<close>

text \<open>
  What \<open>_load_rvc_model\<close> calls outside this repository's sources: \<open>torch.load\<close>, the
  construction of the synthesizer (with \<open>load_state_dict\<close>, \<open>to(device)\<close> and \<open>eval\<close>),
  the constructor of the pipeline and the constructor of the RMVPE predictor.
\<close>

record loaders =
  torch_load :: "string \<Rightarrow> error + checkpoint"
  Synthesizer :: "int list \<Rightarrow> bool \<Rightarrow> nat \<Rightarrow> string \<Rightarrow> error + generator"
  VC :: "int \<Rightarrow> error + pipeline"
  RMVPE0Predictor :: "error + rmvpe"

text \<open>The \<open>except Exception\<close> handler of \<open>_load_rvc_model\<close>, applied to the state reached.\<close>

definition load_failed :: "session \<Rightarrow> bool \<times> session" where
  "load_failed s = (False, s\<lparr>net_g := None, cpt := None, vc_pipeline := None\<rparr>)"

definition load_rvc_model_try :: "loaders \<Rightarrow> string \<Rightarrow> int \<Rightarrow> session \<Rightarrow> bool \<times> session" where
  "load_rvc_model_try L model_path sid' s =
     (case torch_load L model_path of
        Inl e \<Rightarrow> load_failed s
      | Inr c \<Rightarrow>
          let s1 = s\<lparr>cpt := Some c\<rparr> in
          if config c = [] then load_failed s1
          else
            let s2 = s1\<lparr>tgt_sr := Some (last (config c))\<rparr> in
            if length (config c) < 3 then load_failed s2
            else
              let c' = c\<lparr>config := (config c)[length (config c) - 3 := int (emb_g_rows c)]\<rparr>;
                  f0 = (case f0_flag c of None \<Rightarrow> True | Some v \<Rightarrow> v = 1);
                  ver = (case version_tag c of None \<Rightarrow> ''v1'' | Some v \<Rightarrow> v);
                  s3 = s2\<lparr>cpt := Some c', use_f0 := Some f0, version := Some ver\<rparr>;
                  text_enc_hidden_dim = (if ver = ''v2'' then 768 else 256);
                  vocoder = (case vocoder_tag c of None \<Rightarrow> ''HiFi-GAN'' | Some v \<Rightarrow> v)
              in
              (case Synthesizer L (config c') f0 text_enc_hidden_dim vocoder of
                 Inl e \<Rightarrow> load_failed s3
               | Inr g \<Rightarrow>
                   let s4 = s3\<lparr>net_g := Some g, n_spk := Some (int (emb_g_rows c)),
                               current_model_path := Some model_path, sid := Some sid',
                               sid_tensor := Some sid'\<rparr>
                   in
                   (case VC L (last (config c)) of
                      Inl e \<Rightarrow> load_failed s4
                    | Inr p \<Rightarrow>
                        let s5 = s4\<lparr>vc_pipeline := Some p\<rparr> in
                        (case RMVPE0Predictor L of
                           Inl e \<Rightarrow> load_failed s5
                         | Inr r \<Rightarrow> (True, s5\<lparr>model_rmvpe := Some r\<rparr>)))))"

definition load_rvc_model :: "loaders \<Rightarrow> string \<Rightarrow> int \<Rightarrow> session \<Rightarrow> bool \<times> session" where
  "load_rvc_model L model_path sid' s =
     (if net_g s \<noteq> None \<and> current_model_path s = Some model_path \<and> sid s = Some sid'
      then (True, s)
      else load_rvc_model_try L model_path sid' s)"

subsection \<open>Floating-point values that are not numbers\<close>

text \<open>
  \<open>np.log\<close> does not raise on a non-positive argument: it returns minus infinity at
  zero and not-a-number below zero (HOL's \<open>ln\<close> is total and would hide both). Finite
  values are exact reals; the three special values behave as IEEE 754 prescribes: every
  comparison with not-a-number is false.
\<close>

datatype fl = Fin real | PInf | NInf | NaN

definition np_log :: "real \<Rightarrow> fl" where
  "np_log x = (if 0 < x then Fin (ln x) else if x = 0 then NInf else NaN)"

fun fl_gt :: "fl \<Rightarrow> real \<Rightarrow> bool" where
  "fl_gt (Fin x) c = (c < x)"
| "fl_gt PInf c = True"
| "fl_gt NInf c = False"
| "fl_gt NaN c = False"

fun fl_le :: "fl \<Rightarrow> real \<Rightarrow> bool" where
  "fl_le (Fin x) c = (x \<le> c)"
| "fl_le PInf c = False"
| "fl_le NInf c = True"
| "fl_le NaN c = False"

text \<open>\<open>1127 * np.log(1 + f0_fine / 700)\<close>, for one element.\<close>

definition f0_to_mel :: "real \<Rightarrow> fl" where
  "f0_to_mel f =
     (case np_log (1 + f / 700) of
        Fin y \<Rightarrow> Fin (1127 * y)
      | PInf \<Rightarrow> PInf
      | NInf \<Rightarrow> NInf
      | NaN \<Rightarrow> NaN)"

text \<open>
  \<open>(m - f0_mel_min) * 254 / (f0_mel_max - f0_mel_min) + 1\<close>, for one element. A division by
  a zero difference gives an infinity of the numerator's sign, or not-a-number for
  \<open>0 / 0\<close>; NumPy does not raise there.
\<close>

fun mel_rescale :: "real \<Rightarrow> real \<Rightarrow> fl \<Rightarrow> fl" where
  "mel_rescale mel_min mel_max (Fin m) =
     (let n = (m - mel_min) * 254; d = mel_max - mel_min in
      if d \<noteq> 0 then Fin (n / d + 1)
      else if 0 < n then PInf else if n < 0 then NInf else NaN)"
| "mel_rescale mel_min mel_max PInf = (if mel_max - mel_min < 0 then NInf else PInf)"
| "mel_rescale mel_min mel_max NInf = (if mel_max - mel_min < 0 then PInf else NInf)"
| "mel_rescale mel_min mel_max NaN = NaN"

text \<open>\<open>np.rint\<close> rounds to the nearest integer, a tie to the even one.\<close>

definition rint :: "real \<Rightarrow> int" where
  "rint x =
     (let f = \<lfloor>x\<rfloor>; r = x - of_int f in
      if r < 1 / 2 then f
      else if 1 / 2 < r then f + 1
      else if even f then f else f + 1)"

text \<open>
  \<open>np.rint(m).astype(int)\<close>, for one element: a finite value becomes its rounded integer;
  the cast of an infinity or of not-a-number has no defined result.
\<close>

fun rint_astype_int :: "fl \<Rightarrow> int option" where
  "rint_astype_int (Fin x) = Some (rint x)"
| "rint_astype_int PInf = None"
| "rint_astype_int NInf = None"
| "rint_astype_int NaN = None"

text \<open>
  Lines 242 to 246 of \<open>process_chunk\<close>, for one element: the three masked assignments in
  the order of the source, then the rounding cast.
\<close>

definition f0_mel_clamped :: "real \<Rightarrow> real \<Rightarrow> real \<Rightarrow> fl" where
  "f0_mel_clamped mel_min mel_max f =
     (let m0 = f0_to_mel f;
          m1 = (if fl_gt m0 0 then mel_rescale mel_min mel_max m0 else m0);
          m2 = (if fl_le m1 1 then Fin 1 else m1);
          m3 = (if fl_gt m2 255 then Fin 255 else m2)
      in m3)"

definition f0_course_of :: "real \<Rightarrow> real \<Rightarrow> real list \<Rightarrow> int option list" where
  "f0_course_of mel_min mel_max f0_fine =
     map (\<lambda>f. rint_astype_int (f0_mel_clamped mel_min mel_max f)) f0_fine"

subsection \<open>Processing one block: helpers\<close>

text \<open>Sequencing of steps that may raise: the first exception ends the computation.\<close>

definition then_do :: "error + 'a \<Rightarrow> ('a \<Rightarrow> error + 'b) \<Rightarrow> error + 'b" where
  "then_do m k = (case m of Inl e \<Rightarrow> Inl e | Inr x \<Rightarrow> k x)"

fun sequence :: "(error + 'a) list \<Rightarrow> error + 'a list" where
  "sequence [] = Inr []"
| "sequence (m # ms) = then_do m (\<lambda>x. then_do (sequence ms) (\<lambda>xs. Inr (x # xs)))"

text \<open>
  Library calls of \<open>process_chunk\<close> and of the tab that are taken as they come:
  \<open>scipy.signal.filtfilt(bh, ah, x)\<close>, \<open>np.pad(x, (p, p), mode='reflect')\<close>, the
  construction and use of the FCPE predictor, and \<open>librosa.resample(x, orig_sr, target_sr)\<close>.
  Each may raise.
\<close>

record libs =
  filtfilt :: "ndarray \<Rightarrow> error + ndarray"
  pad_reflect :: "ndarray \<Rightarrow> nat \<Rightarrow> error + ndarray"
  fcpe_compute_f0 :: "ndarray \<Rightarrow> nat \<Rightarrow> error + real list"
  resample :: "ndarray \<Rightarrow> int \<Rightarrow> int \<Rightarrow> error + ndarray"

text \<open>\<open>if x.ndim > 1 and x.shape[1] == 1: x = x.flatten()\<close>\<close>

definition squeeze_mono :: "ndarray \<Rightarrow> ndarray" where
  "squeeze_mono a =
     (if 1 < ndim a \<and> shape a ! 1 = 1 then a\<lparr>shape := [prod_list (shape a)]\<rparr> else a)"

text \<open>\<open>len(x)\<close> and \<open>x.shape[0]\<close>: the first dimension; a zero-dimensional array has none.\<close>

definition py_len :: "ndarray \<Rightarrow> error + nat" where
  "py_len a = (case shape a of [] \<Rightarrow> Inl TypeError | n # ds \<Rightarrow> Inr n)"

definition shape0 :: "ndarray \<Rightarrow> error + nat" where
  "shape0 a = (case shape a of [] \<Rightarrow> Inl IndexError | n # ds \<Rightarrow> Inr n)"

text \<open>\<open>p_len = audio_padded.shape[0] // self.vc_pipeline.window\<close>\<close>

definition frame_count :: "ndarray \<Rightarrow> nat \<Rightarrow> error + nat" where
  "frame_count audio_padded w =
     then_do (shape0 audio_padded) (\<lambda>n.
       if w = 0 then Inl ZeroDivisionError else Inr (n div w))"

subsection \<open>Step 2: pitch extraction\<close>

definition predict_f0 :: "libs \<Rightarrow> session \<Rightarrow> string \<Rightarrow> ndarray \<Rightarrow> nat \<Rightarrow> error + real list" where
  "predict_f0 lib s method audio_padded p_len =
     (case (if method = ''rmvpe'' then model_rmvpe s else None) of
        Some infer_from_audio \<Rightarrow> infer_from_audio audio_padded
      | None \<Rightarrow>
          if method = ''fcpe'' then fcpe_compute_f0 lib audio_padded p_len
          else Inr (replicate p_len 0))"

definition extract_f0 ::
  "libs \<Rightarrow> session \<Rightarrow> pipeline \<Rightarrow> string \<Rightarrow> bool \<Rightarrow> real \<Rightarrow> real \<Rightarrow> ndarray \<Rightarrow> nat
   \<Rightarrow> error + (int option list \<times> real list) option" where
  "extract_f0 lib s vc method autotune strength pitch_change audio_padded p_len =
     (if use_f0 s = Some True then
        then_do (predict_f0 lib s method audio_padded p_len) (\<lambda>f0_raw.
        then_do (if autotune then autotune_f0 vc f0_raw strength else Inr f0_raw) (\<lambda>f0_tuned.
          let f0_fine = map (\<lambda>x. x * 2 powr (pitch_change / 12)) f0_tuned;
              f0_course = f0_course_of (f0_mel_min vc) (f0_mel_max vc) f0_fine
          in Inr (Some (f0_course, f0_fine))))
      else Inr None)"

subsection \<open>Step 3: features, retrieval, upsampling, alignment, protection\<close>

text \<open>\<open>torch.mean(feats, dim=0, keepdim=True)\<close> of a two-dimensional tensor.\<close>

definition mean_dim0 :: "ndarray \<Rightarrow> ndarray" where
  "mean_dim0 a =
     (let r = shape a ! 0; c = shape a ! 1 in
      \<lparr>shape = [1, c],
       flat = map (\<lambda>j. sum_list (map (\<lambda>i. flat a ! (i * c + j)) [0..<r]) / real r) [0..<c]\<rparr>)"

definition to_batch :: "ndarray \<Rightarrow> ndarray" where
  "to_batch a =
     (if ndim a = 1 then a\<lparr>shape := 1 # shape a\<rparr>
      else if ndim a = 2 \<and> 1 < shape a ! 0 then mean_dim0 a
      else a)"

definition embed :: "session \<Rightarrow> hubert \<Rightarrow> ndarray \<Rightarrow> error + feats" where
  "embed s h audio_padded =
     then_do (forward h (to_batch audio_padded)) (\<lambda>hubert_out.
       if version s = Some ''v1'' then final_proj h hubert_out else Inr hubert_out)"

definition retrieval :: "session \<Rightarrow> pipeline \<Rightarrow> real \<Rightarrow> feats \<Rightarrow> error + feats" where
  "retrieval s vc rate fs =
     (case index s of
        None \<Rightarrow> Inr fs
      | Some ix \<Rightarrow>
          (case big_npy s of
             None \<Rightarrow> Inr fs
           | Some npy \<Rightarrow>
               if 0 < rate then retrieve_speaker_embeddings vc fs ix npy rate else Inr fs))"

text \<open>
  \<open>torch.nn.functional.interpolate(x.permute(0, 2, 1), scale_factor=2).permute(0, 2, 1)\<close>:
  the default mode is nearest neighbour, so output frame \<open>i\<close> is input frame \<open>i div 2\<close>.
  Torch rejects an input without frames.
\<close>

definition interpolate2 :: "feats \<Rightarrow> error + feats" where
  "interpolate2 fs = (if fs = [] then Inl RuntimeError else Inr (concat (map (\<lambda>fr. [fr, fr]) fs)))"

text \<open>
  Broadcasting of one axis: equal sizes combine element by element, a size of one is
  repeated, anything else is a size mismatch.
\<close>

definition broadcast2 :: "('a \<Rightarrow> 'b \<Rightarrow> 'c) \<Rightarrow> 'a list \<Rightarrow> 'b list \<Rightarrow> error + 'c list" where
  "broadcast2 f xs ys =
     (if length xs = length ys then Inr (map2 f xs ys)
      else if length xs = 1 then Inr (map (f (hd xs)) ys)
      else if length ys = 1 then Inr (map (\<lambda>x. f x (hd ys)) xs)
      else Inl RuntimeError)"

text \<open>
  \<open>pitchff = pitchf.clone(); pitchff[pitchf > 0] = 1; pitchff[pitchf <= 0] = protect_val\<close>
\<close>

definition protect_mask :: "real \<Rightarrow> real list \<Rightarrow> real list" where
  "protect_mask protect pitchf =
     map (\<lambda>p. let q = (if 0 < p then 1 else p) in if p \<le> 0 then protect else q) pitchf"

text \<open>
  \<open>feats * mask + feats_for_protection[:, :feats.shape[1]] * (1 - mask)\<close> with
  \<open>mask = pitchff[:, :feats.shape[1]].unsqueeze(-1)\<close>: the mask has one value per frame
  and is repeated over the channels.
\<close>

definition pitch_protection :: "real \<Rightarrow> feats \<Rightarrow> feats \<Rightarrow> real list \<Rightarrow> error + feats" where
  "pitch_protection protect fs prot pitchf =
     (let current_protect_mask = take (length fs) (protect_mask protect pitchf) in
      then_do (broadcast2 (\<lambda>fr m. map (\<lambda>v. v * m) fr) fs current_protect_mask) (\<lambda>a.
      then_do (broadcast2 (\<lambda>fr m. map (\<lambda>v. v * (1 - m)) fr)
                 (take (length fs) prot) current_protect_mask) (\<lambda>b.
      then_do (broadcast2 (broadcast2 (+)) a b) sequence)))"

text \<open>Steps 3.1 to 3.5: everything the generator is called with.\<close>

definition prepare_generation ::
  "session \<Rightarrow> hubert \<Rightarrow> pipeline \<Rightarrow> real \<Rightarrow> real \<Rightarrow> (int option list \<times> real list) option
   \<Rightarrow> nat \<Rightarrow> ndarray \<Rightarrow> error + gen_args" where
  "prepare_generation s h vc rate protect f0 p_len audio_padded =
     then_do (embed s h audio_padded) (\<lambda>feats0.
     let feats_for_protection =
           (if use_f0 s = Some True \<and> protect < 0.5 then Some feats0 else None) in
     then_do (retrieval s vc rate feats0) (\<lambda>feats1.
     then_do (interpolate2 feats1) (\<lambda>feats2.
     let gen_p_len = min (length feats2) p_len;
         f0_cut = map_option (\<lambda>(c, f). (take gen_p_len c, take gen_p_len f)) f0 in
     then_do
       (case feats_for_protection of
          None \<Rightarrow> Inr feats2
        | Some prot \<Rightarrow>
            (case f0_cut of
               None \<Rightarrow> Inr feats2
             | Some (c, pitchf) \<Rightarrow>
                 then_do (interpolate2 prot) (\<lambda>prot_up.
                   pitch_protection protect feats2 prot_up pitchf)))
       (\<lambda>feats3.
          Inr \<lparr>g_feats = feats3, g_p_len = gen_p_len, g_pitch = map_option fst f0_cut,
               g_pitchf = map_option snd f0_cut, g_sid = sid_tensor s\<rparr>))))"

subsection \<open>Steps 4 to 6: trim, envelope matching, normalisation\<close>

text \<open>Python's \<open>int(x)\<close> on a float truncates towards zero.\<close>

definition py_int :: "real \<Rightarrow> int" where
  "py_int x = (if 0 \<le> x then \<lfloor>x\<rfloor> else \<lceil>x\<rceil>)"

text \<open>
  \<open>int(len(audio_chunk_16khz_float32) * (self.tgt_sr / self.vc_pipeline.sample_rate))\<close>,
  in exact arithmetic.
\<close>

definition expected_out_len :: "session \<Rightarrow> pipeline \<Rightarrow> ndarray \<Rightarrow> error + int" where
  "expected_out_len s vc chunk =
     then_do (py_len chunk) (\<lambda>n.
       case tgt_sr s of
         None \<Rightarrow> Inl TypeError
       | Some t \<Rightarrow>
           if sample_rate vc = 0 then Inl ZeroDivisionError
           else Inr (py_int (real n * (real_of_int t / real_of_int (sample_rate vc)))))"

text \<open>
  \<open>audio_out_numpy[start_trim : end_trim]\<close> with \<open>end_trim = -start_trim\<close>. For a trim
  width of zero the slice is \<open>[0 : 0]\<close>, which is empty.
\<close>

definition slice_trim :: "nat \<Rightarrow> real list \<Rightarrow> real list" where
  "slice_trim start_trim xs =
     (if start_trim = 0 then [] else take (length xs - 2 * start_trim) (drop start_trim xs))"

definition trim_output :: "session \<Rightarrow> pipeline \<Rightarrow> ndarray \<Rightarrow> real list \<Rightarrow> error + real list" where
  "trim_output s vc chunk audio_out =
     (let start_trim = t_pad_tgt vc in
      if 2 * start_trim < length audio_out then Inr (slice_trim start_trim audio_out)
      else
        then_do (expected_out_len s vc chunk) (\<lambda>e.
          if real (length audio_out) < real_of_int e / 2
          then (if e < 0 then Inl ValueError else Inr (replicate (nat e) 0))
          else Inr audio_out))"

definition match_length :: "nat \<Rightarrow> real list \<Rightarrow> real list" where
  "match_length target_len xs =
     (if length xs \<noteq> target_len then
        (if length xs < target_len then xs @ replicate (target_len - length xs) 0
         else take target_len xs)
      else xs)"

definition volume_envelope ::
  "libs \<Rightarrow> session \<Rightarrow> pipeline \<Rightarrow> ndarray \<Rightarrow> real \<Rightarrow> real list \<Rightarrow> error + real list" where
  "volume_envelope lib s vc chunk mix audio_trimmed =
     (if mix < 1 \<and> 0 \<le> mix then
        (case tgt_sr s of
           None \<Rightarrow> Inl TypeError
         | Some t \<Rightarrow>
             then_do (if t \<noteq> sample_rate vc then resample lib chunk (sample_rate vc) t
                      else Inr chunk) (\<lambda>original_chunk_resampled.
             then_do (py_len original_chunk_resampled) (\<lambda>target_len.
               change_rms vc original_chunk_resampled t
                 (match_length target_len audio_trimmed) t mix)))
      else Inr audio_trimmed)"

text \<open>
  \<open>audio_max = np.abs(x).max() / 0.99; if audio_max > 1: x /= audio_max\<close>. The maximum of
  an empty array raises.
\<close>

definition peak_normalize :: "real list \<Rightarrow> error + real list" where
  "peak_normalize xs =
     (if xs = [] then Inl ValueError
      else
        let audio_max = Max (set (map abs xs)) / 0.99 in
        Inr (if 1 < audio_max then map (\<lambda>x. x / audio_max) xs else xs))"

text \<open>Steps 4 to 6 in sequence and the final \<open>astype(np.float32)\<close>.\<close>

definition finish_chunk ::
  "libs \<Rightarrow> session \<Rightarrow> pipeline \<Rightarrow> ndarray \<Rightarrow> real \<Rightarrow> real list \<Rightarrow> error + ndarray" where
  "finish_chunk lib s vc chunk mix audio_out =
     then_do (trim_output s vc chunk audio_out) (\<lambda>audio_trimmed.
     then_do (volume_envelope lib s vc chunk mix audio_trimmed) (\<lambda>audio_mixed.
     then_do (peak_normalize audio_mixed) (\<lambda>audio_final.
       Inr (array1 audio_final))))"

subsection \<open>\<open>process_chunk\<close>\<close>

text \<open>
  The method assigns to no attribute of the converter, so it is a function of the session
  and returns the block only.
\<close>

definition process_chunk ::
  "libs \<Rightarrow> session \<Rightarrow> ndarray \<Rightarrow> real \<Rightarrow> string \<Rightarrow> real \<Rightarrow> real \<Rightarrow> bool \<Rightarrow> real \<Rightarrow> real
   \<Rightarrow> error + ndarray" where
  "process_chunk lib s audio_chunk pitch_change method rate protect autotune strength mix =
     (if \<not> is_ready s then Inr (zeros_like audio_chunk)
      else
        (case (hubert_model s, net_g s, vc_pipeline s) of
           (Some h, Some infer, Some vc) \<Rightarrow>
             let chunk = squeeze_mono audio_chunk in
             then_do (filtfilt lib chunk) (\<lambda>audio_filtered.
             then_do (pad_reflect lib audio_filtered (t_pad vc)) (\<lambda>audio_padded.
             then_do (frame_count audio_padded (window vc)) (\<lambda>p_len.
             then_do (extract_f0 lib s vc method autotune strength pitch_change
                        audio_padded p_len) (\<lambda>f0.
             then_do (prepare_generation s h vc rate protect f0 p_len audio_padded) (\<lambda>ga.
             then_do (infer ga) (\<lambda>audio_out.
               finish_chunk lib s vc chunk mix audio_out))))))
         | _ \<Rightarrow> Inr (zeros_like audio_chunk)))"

section \<open>The processing callback of the tab (tabs/realtime/realtime.py)\<close>

text \<open>The dictionary \<open>realtime_settings\<close>, one field per key.\<close>

record settings =
  rs_pitch :: real
  rs_index_rate :: real
  rs_protect_val :: real
  rs_f0_method :: string
  rs_vad_enabled :: bool
  rs_vad_sensitivity :: int
  rs_embedder_name :: string
  rs_f0_autotune_enabled :: bool
  rs_f0_autotune_strength :: real
  rs_output_volume_envelope_mix :: real

text \<open>
  The module globals the callback reads. It assigns to none of them, so it returns the
  block only. A voice-activity detector is its \<open>is_speech\<close> method.
\<close>

record globals =
  rt_converter :: session
  vad_processor :: "(ndarray \<Rightarrow> error + bool) option"
  is_realtime_processing_active :: bool
  realtime_settings :: settings

definition REALTIME_STREAM_SAMPLE_RATE :: int where
  "REALTIME_STREAM_SAMPLE_RATE = 48000"

definition HUBERT_SAMPLE_RATE :: int where
  "HUBERT_SAMPLE_RATE = 16000"

text \<open>
  Step 2 of the callback: the value of \<open>processed_16khz_chunk\<close> after the gate. \<open>None\<close>
  means the block goes on to conversion.
\<close>

definition vad_gate :: "globals \<Rightarrow> ndarray \<Rightarrow> ndarray option" where
  "vad_gate g mic_chunk_16khz =
     (if rs_vad_enabled (realtime_settings g) then
        (case vad_processor g of
           None \<Rightarrow> None
         | Some is_speech \<Rightarrow>
             (case is_speech mic_chunk_16khz of
                Inl e \<Rightarrow> None
              | Inr speech \<Rightarrow> if \<not> speech then Some (zeros_like mic_chunk_16khz) else None))
      else None)"

text \<open>Step 3 of the callback: the \<open>try\<close> around \<open>process_chunk\<close> and its handler.\<close>

definition rvc_stage :: "libs \<Rightarrow> globals \<Rightarrow> ndarray \<Rightarrow> ndarray" where
  "rvc_stage lib g mic_chunk_16khz =
     (let rs = realtime_settings g in
      case process_chunk lib (rt_converter g) mic_chunk_16khz (rs_pitch rs) (rs_f0_method rs)
             (rs_index_rate rs) (rs_protect_val rs) (rs_f0_autotune_enabled rs)
             (rs_f0_autotune_strength rs) (rs_output_volume_envelope_mix rs) of
        Inl e \<Rightarrow> zeros_like mic_chunk_16khz
      | Inr out \<Rightarrow> out)"

definition processed_chunk :: "libs \<Rightarrow> globals \<Rightarrow> ndarray \<Rightarrow> ndarray" where
  "processed_chunk lib g mic_chunk_16khz =
     (case vad_gate g mic_chunk_16khz of
        Some silence \<Rightarrow> silence
      | None \<Rightarrow> rvc_stage lib g mic_chunk_16khz)"

text \<open>
  The callback as it is written. After the output has been resampled, line 143 reads
  \<open>mic_chunk_float_32\<close>, a name bound nowhere in the module (the parameter is
  \<open>mic_chunk_float32\<close>): evaluating the comparison raises \<open>NameError\<close>, and the lines that
  pad, truncate and tile the output are never reached.
\<close>

definition audio_processing_callback :: "libs \<Rightarrow> globals \<Rightarrow> ndarray \<Rightarrow> error + ndarray option" where
  "audio_processing_callback lib g mic_chunk_float32 =
     (if \<not> is_ready (rt_converter g) \<or> \<not> is_realtime_processing_active g
      then Inr (Some (zeros_like mic_chunk_float32))
      else
        then_do (resample lib mic_chunk_float32 REALTIME_STREAM_SAMPLE_RATE HUBERT_SAMPLE_RATE)
          (\<lambda>mic_chunk_16khz.
             let processed_16khz_chunk = processed_chunk lib g mic_chunk_16khz in
             case tgt_sr (rt_converter g) of
               None \<Rightarrow> Inr (Some (zeros_like mic_chunk_float32))
             | Some t \<Rightarrow>
                 then_do (resample lib processed_16khz_chunk t REALTIME_STREAM_SAMPLE_RATE)
                   (\<lambda>output_chunk_stream_sr. Inl NameError)))"

section \<open>Auxiliary definitions for the statements\<close>


subsection \<open>Test doubles\<close>

text \<open>
  Collaborators for concrete runs. The filter is the identity, padding adds the right
  number of samples, the resampler is the identity; the pipeline constants are those of a
  48 kHz model with one second of context (\<open>f0_min = 50\<close>, \<open>f0_max = 1100\<close>).
\<close>

definition stub_libs :: libs where
  "stub_libs =
     \<lparr>filtfilt = Inr,
      pad_reflect = (\<lambda>x p. Inr (array1 (replicate p 0 @ flat x @ replicate p 0))),
      fcpe_compute_f0 = (\<lambda>x n. Inr (replicate n 0)),
      resample = (\<lambda>x orig_sr target_sr. Inr x)\<rparr>"

definition stub_pipeline :: pipeline where
  "stub_pipeline =
     \<lparr>t_pad = 16000, t_pad_tgt = 48000, window = 160, sample_rate = 16000,
      f0_mel_min = 1127 * ln (1 + 50 / 700), f0_mel_max = 1127 * ln (1 + 1100 / 700),
      autotune_f0 = (\<lambda>f strength. Inr f),
      retrieve_speaker_embeddings = (\<lambda>fs ix npy rate. Inr fs),
      change_rms = (\<lambda>src src_rate tgt tgt_rate rate. Inr tgt)\<rparr>"

definition stub_session :: "hubert \<Rightarrow> generator \<Rightarrow> bool \<Rightarrow> session" where
  "stub_session h g f0 =
     init_session\<lparr>hubert_model := Some h, net_g := Some g, vc_pipeline := Some stub_pipeline,
       version := Some ''v2'', use_f0 := Some f0, tgt_sr := Some 48000, sid := Some 0,
       sid_tensor := Some 0, current_model_path := Some ''model.pth''\<rparr>"

definition constant_generator :: "real list \<Rightarrow> generator" where
  "constant_generator out ga = Inr out"

definition stub_hubert :: hubert where
  "stub_hubert = \<lparr>forward = (\<lambda>x. Inr [[1, 2], [3, 4]]), final_proj = Inr\<rparr>"

definition failing_hubert :: hubert where
  "failing_hubert = \<lparr>forward = (\<lambda>x. Inl (Raised 1)), final_proj = Inr\<rparr>"



definition default_settings :: settings where
  "default_settings =
     \<lparr>rs_pitch = 0, rs_index_rate = 0.75, rs_protect_val = 0.33, rs_f0_method = ''rmvpe'',
      rs_vad_enabled = True, rs_vad_sensitivity = 3, rs_embedder_name = ''contentvec'',
      rs_f0_autotune_enabled = False, rs_f0_autotune_strength = 0.8,
      rs_output_volume_envelope_mix = 1\<rparr>"

definition stub_globals :: "session \<Rightarrow> (ndarray \<Rightarrow> error + bool) option \<Rightarrow> globals" where
  "stub_globals s vad =
     \<lparr>rt_converter = s, vad_processor = vad, is_realtime_processing_active = True,
      realtime_settings = default_settings\<rparr>"

definition stub_loaders :: loaders where
  "stub_loaders =
     \<lparr>torch_load = (\<lambda>path. Inr \<lparr>config = [1025, 32, 192, 109, 256, 48000], emb_g_rows = 109,
                                   f0_flag = Some 1, version_tag = Some ''v2'',
                                   vocoder_tag = None\<rparr>),
      Synthesizer = (\<lambda>cfg f0 hidden vocoder. Inr (constant_generator [0])),
      VC = (\<lambda>rate. Inr stub_pipeline),
      RMVPE0Predictor = Inr (\<lambda>x. Inr [])\<rparr>"

definition failing_loaders :: loaders where
  "failing_loaders =
     \<lparr>torch_load = (\<lambda>path. Inl (Raised 2)),
      Synthesizer = (\<lambda>cfg f0 hidden vocoder. Inl (Raised 3)),
      VC = (\<lambda>rate. Inl (Raised 4)),
      RMVPE0Predictor = Inl (Raised 5)\<rparr>"

section \<open>Properties of the hardware callback\<close>

lemma fill_zero_shape: "shape (fill_zero outdata) = shape outdata"
  by (simp add: fill_zero_def)

lemma fill_zero_all_zero: "all_zero (fill_zero outdata)"
  by (simp add: fill_zero_def all_zero_def list_all_iff)

text \<open>
  Claim C3. Whatever the registered processing function does, the hardware callback
  returns normally; when that function raises, returns \<open>None\<close>, or returns a block whose
  shape differs from the output buffer's, the buffer is left filled with zeros.
\<close>

theorem audio_callback_never_raises:
  "(\<exists>out. audio_callback cb indata outdata = Inr out) \<and>
   ((case cb of
       None \<Rightarrow> True
     | Some f \<Rightarrow>
         (case f indata of
            Inl e \<Rightarrow> True
          | Inr None \<Rightarrow> True
          | Inr (Some p) \<Rightarrow> shape p \<noteq> shape outdata))
    \<longrightarrow> audio_callback cb indata outdata = Inr (fill_zero outdata) \<and>
        all_zero (fill_zero outdata) \<and>
        shape (fill_zero outdata) = shape outdata)"
  by (auto simp: audio_callback_def audio_callback_try_def fill_zero_all_zero fill_zero_shape
           split: option.splits sum.splits)

theorem audio_callback_never_raises_witness:
  "audio_callback (Some (\<lambda>x. Inl NameError)) (np_zeros 2) \<lparr>shape = [2], flat = [5, 7]\<rparr>
     = Inr \<lparr>shape = [2], flat = [0, 0]\<rparr>"
  using audio_callback_never_raises
          [of "Some (\<lambda>x. Inl NameError)" "np_zeros 2" "\<lparr>shape = [2], flat = [5, 7]\<rparr>"]
  by (simp add: fill_zero_def)

section \<open>Shared lemmas\<close>

lemma then_do_simps: "then_do (Inr x) k = k x" "then_do (Inl e) k = Inl e"
  by (simp_all add: then_do_def)


lemma zeros_like_shape: "shape (zeros_like a) = shape a"
  by (simp add: zeros_like_def)

lemma zeros_like_all_zero: "all_zero (zeros_like a)"
  by (simp add: zeros_like_def all_zero_def list_all_iff)

lemmas stub_defs = stub_libs_def stub_pipeline_def stub_session_def stub_hubert_def
  constant_generator_def failing_hubert_def default_settings_def stub_globals_def init_session_def

lemmas chunk_defs = process_chunk_def is_ready_def squeeze_mono_def ndim_def np_zeros_def
  array1_def frame_count_def shape0_def extract_f0_def prepare_generation_def embed_def
  to_batch_def py_len_def py_int_def zeros_like_def retrieval_def interpolate2_def
  finish_chunk_def trim_output_def expected_out_len_def volume_envelope_def
  peak_normalize_def

section \<open>Properties of \<open>process_chunk\<close> and of the session\<close>

text \<open>
  Claim C10. Called on a session that is not ready, \<open>process_chunk\<close> returns an all-zero
  block of the shape of its input. The result is the same for every choice of library
  functions and for every value of the handles stored in the session, so none of them is
  consulted; the method assigns to no field of the session.
\<close>

theorem process_chunk_not_ready:
  "\<not> is_ready s \<Longrightarrow>
     process_chunk lib s audio_chunk pitch_change method rate protect autotune strength mix
       = Inr (zeros_like audio_chunk) \<and>
     shape (zeros_like audio_chunk) = shape audio_chunk \<and>
     all_zero (zeros_like audio_chunk)"
  by (simp add: process_chunk_def zeros_like_shape zeros_like_all_zero)

theorem process_chunk_not_ready_witness:
  "\<not> is_ready init_session \<and>
   process_chunk stub_libs init_session \<lparr>shape = [3, 1], flat = [1, 2, 3]\<rparr>
       0 ''rmvpe'' 0.75 0.33 False 0.8 1
     = Inr (zeros_like \<lparr>shape = [3, 1], flat = [1, 2, 3]\<rparr>) \<and>
   zeros_like \<lparr>shape = [3, 1], flat = [1, 2, 3]\<rparr> = \<lparr>shape = [3, 1], flat = [0, 0, 0]\<rparr>"
proof -
  have h: "\<not> is_ready init_session"
    by (simp add: is_ready_def init_session_def)
  have z: "zeros_like \<lparr>shape = [3, 1], flat = [1, 2, 3]\<rparr> = \<lparr>shape = [3, 1], flat = [0, 0, 0]\<rparr>"
    by (simp add: zeros_like_def eval_nat_numeral)
  show ?thesis
    using h z
      process_chunk_not_ready [OF h, of stub_libs "\<lparr>shape = [3, 1], flat = [1, 2, 3]\<rparr>"
        0 "''rmvpe''" "0.75" "0.33" False "0.8" 1]
    by simp
qed

lemma load_try_success:
  "load_rvc_model_try L p i s = (True, s') \<Longrightarrow>
     net_g s' \<noteq> None \<and> current_model_path s' = Some p \<and> sid s' = Some i"
  by (auto simp: load_rvc_model_try_def load_failed_def Let_def split: sum.splits if_splits)

text \<open>
  Claim C8. While a generator is loaded under the same model path and speaker id,
  \<open>_load_rvc_model\<close> returns success and leaves the whole session as it was, whatever the
  loading functions would do (so they are not called); in particular a second call after
  a successful one, with the same arguments, changes nothing.
\<close>

theorem load_rvc_model_idempotent:
  "(net_g s \<noteq> None \<and> current_model_path s = Some p \<and> sid s = Some i
      \<longrightarrow> load_rvc_model L p i s = (True, s)) \<and>
   (load_rvc_model L p i s = (True, s') \<longrightarrow> load_rvc_model L' p i s' = (True, s'))"
proof (intro conjI impI)
  assume "net_g s \<noteq> None \<and> current_model_path s = Some p \<and> sid s = Some i"
  then show "load_rvc_model L p i s = (True, s)"
    by (simp add: load_rvc_model_def)
next
  assume ok: "load_rvc_model L p i s = (True, s')"
  have "net_g s' \<noteq> None \<and> current_model_path s' = Some p \<and> sid s' = Some i"
  proof (cases "net_g s \<noteq> None \<and> current_model_path s = Some p \<and> sid s = Some i")
    case True
    with ok show ?thesis by (simp add: load_rvc_model_def)
  next
    case False
    with ok have "load_rvc_model_try L p i s = (True, s')"
      by (auto simp: load_rvc_model_def split: if_splits)
    then show ?thesis by (rule load_try_success)
  qed
  then show "load_rvc_model L' p i s' = (True, s')"
    by (simp add: load_rvc_model_def)
qed

theorem load_rvc_model_idempotent_witness:
  "fst (load_rvc_model stub_loaders ''model.pth'' 0 init_session) \<and>
   tgt_sr (snd (load_rvc_model stub_loaders ''model.pth'' 0 init_session)) = Some 48000 \<and>
   load_rvc_model failing_loaders ''model.pth'' 0
       (snd (load_rvc_model stub_loaders ''model.pth'' 0 init_session))
     = (True, snd (load_rvc_model stub_loaders ''model.pth'' 0 init_session))"
proof -
  obtain s' where first: "load_rvc_model stub_loaders ''model.pth'' 0 init_session = (True, s')"
    and rate: "tgt_sr s' = Some 48000"
    by (simp add: load_rvc_model_def load_rvc_model_try_def stub_loaders_def init_session_def
          Let_def)
  from load_rvc_model_idempotent
         [of init_session "''model.pth''" 0 stub_loaders s' failing_loaders] first
  have "load_rvc_model failing_loaders ''model.pth'' 0 s' = (True, s')"
    by blast
  with first rate show ?thesis by simp
qed

section \<open>Properties of the tab's processing callback\<close>

text \<open>
  Claim C9. When the voice-activity detector raises while classifying a block, the gate
  substitutes nothing: the block goes through \<open>process_chunk\<close> exactly as it does when
  no gate is active.
\<close>

theorem vad_error_processes:
  "rs_vad_enabled (realtime_settings g) \<Longrightarrow> vad_processor g = Some v \<Longrightarrow> v x = Inl e \<Longrightarrow>
     vad_gate g x = None \<and>
     processed_chunk lib g x = rvc_stage lib g x \<and>
     processed_chunk lib g x = processed_chunk lib (g\<lparr>vad_processor := None\<rparr>) x"
  by (simp add: vad_gate_def processed_chunk_def rvc_stage_def)

theorem vad_error_processes_witness:
  "processed_chunk stub_libs
     (stub_globals (stub_session stub_hubert (constant_generator [0.5, 0.5, 0.5, 0.5, 0.5, 0.5]) False)
        (Some (\<lambda>x. Inl (Raised 7))))
     (np_zeros 4)
   = array1 [0.5, 0.5, 0.5, 0.5, 0.5, 0.5]"
proof -
  let ?g = "stub_globals (stub_session stub_hubert (constant_generator [0.5, 0.5, 0.5, 0.5, 0.5, 0.5]) False)
              (Some (\<lambda>x. Inl (Raised 7)))"
  have h1: "rs_vad_enabled (realtime_settings ?g)"
    by (simp add: stub_globals_def default_settings_def)
  have h2: "vad_processor ?g = Some (\<lambda>x. Inl (Raised 7))"
    by (simp add: stub_globals_def)
  have r: "rvc_stage stub_libs ?g (np_zeros 4) = array1 [0.5, 0.5, 0.5, 0.5, 0.5, 0.5]"
    by (simp add: rvc_stage_def chunk_defs stub_defs then_do_simps Let_def)
  from vad_error_processes
         [OF h1 h2, where x = "np_zeros 4" and e = "Raised 7" and lib = stub_libs] r
  show ?thesis by simp
qed

text \<open>
  Claim C2, as amended. An exception raised anywhere inside \<open>process_chunk\<close> is caught
  by the \<open>try\<close> of the processing callback and replaced by a silence block of the shape
  of the feature-rate input block (its length is not scaled by the ratio of target rate
  to feature rate); the callback assigns to no global, so the stream state is untouched.
\<close>

theorem process_chunk_error_becomes_silence:
  "process_chunk lib (rt_converter g) x (rs_pitch (realtime_settings g))
       (rs_f0_method (realtime_settings g)) (rs_index_rate (realtime_settings g))
       (rs_protect_val (realtime_settings g)) (rs_f0_autotune_enabled (realtime_settings g))
       (rs_f0_autotune_strength (realtime_settings g))
       (rs_output_volume_envelope_mix (realtime_settings g)) = Inl e \<Longrightarrow>
   rvc_stage lib g x = zeros_like x \<and>
   shape (rvc_stage lib g x) = shape x \<and>
   all_zero (rvc_stage lib g x)"
  by (simp add: rvc_stage_def Let_def zeros_like_shape zeros_like_all_zero)

theorem process_chunk_error_becomes_silence_witness:
  "rvc_stage stub_libs
     (stub_globals (stub_session failing_hubert (constant_generator [0]) False) None) (np_zeros 4)
   = zeros_like (np_zeros 4)"
proof -
  let ?g = "stub_globals (stub_session failing_hubert (constant_generator [0]) False) None"
  have h: "process_chunk stub_libs (rt_converter ?g) (np_zeros 4) (rs_pitch (realtime_settings ?g))
       (rs_f0_method (realtime_settings ?g)) (rs_index_rate (realtime_settings ?g))
       (rs_protect_val (realtime_settings ?g)) (rs_f0_autotune_enabled (realtime_settings ?g))
       (rs_f0_autotune_strength (realtime_settings ?g))
       (rs_output_volume_envelope_mix (realtime_settings ?g)) = Inl (Raised 1)"
    by (simp add: chunk_defs stub_defs then_do_simps)
  from process_chunk_error_becomes_silence [OF h] show ?thesis by simp
qed

text \<open>
  Claim C2 as first stated fails: with a 48 kHz model and an embedder that raises, a
  block of 342 samples at the feature rate gives a silence block of 342 samples, while
  the expected output length is 1026.
\<close>

theorem error_silence_length_counterexample:
  "process_chunk stub_libs (stub_session failing_hubert (constant_generator [0]) False)
       (np_zeros 342) 0 ''rmvpe'' 0.75 0.33 False 0.8 1 = Inl (Raised 1) \<and>
   expected_out_len (stub_session failing_hubert (constant_generator [0]) False) stub_pipeline
       (np_zeros 342) = Inr 1026 \<and>
   shape (rvc_stage stub_libs
            (stub_globals (stub_session failing_hubert (constant_generator [0]) False) None)
            (np_zeros 342)) = [342] \<and>
   shape (rvc_stage stub_libs
            (stub_globals (stub_session failing_hubert (constant_generator [0]) False) None)
            (np_zeros 342)) \<noteq> [1026]"
  by (simp add: rvc_stage_def chunk_defs stub_defs then_do_simps)

text \<open>
  Claim C1 does not hold of the code. Whenever the session is ready, the stream is running
  and a target rate is set, the processing callback never returns a block: either a
  resampling call raises, or line 143 raises \<open>NameError\<close>. The hardware callback catches the
  exception, so every such block is played as silence.
\<close>

theorem audio_processing_callback_raises:
  "is_ready (rt_converter g) \<Longrightarrow> is_realtime_processing_active g \<Longrightarrow>
   tgt_sr (rt_converter g) \<noteq> None \<Longrightarrow>
     (\<exists>e. audio_processing_callback lib g mic = Inl e) \<and>
     audio_callback (Some (audio_processing_callback lib g)) mic outdata
       = Inr (fill_zero outdata)"
  by (auto simp: audio_processing_callback_def audio_callback_def audio_callback_try_def
        then_do_def Let_def split: sum.splits option.splits)

theorem audio_processing_callback_raises_witness:
  "audio_processing_callback stub_libs
     (stub_globals (stub_session stub_hubert (constant_generator [0]) False) None)
     \<lparr>shape = [1024, 1], flat = replicate 1024 0\<rparr> = Inl NameError \<and>
   audio_callback
     (Some (audio_processing_callback stub_libs
        (stub_globals (stub_session stub_hubert (constant_generator [0]) False) None)))
     \<lparr>shape = [1024, 1], flat = replicate 1024 0\<rparr>
     \<lparr>shape = [1024, 1], flat = replicate 1024 1\<rparr>
   = Inr \<lparr>shape = [1024, 1], flat = replicate 1024 0\<rparr>"
proof -
  let ?g = "stub_globals (stub_session stub_hubert (constant_generator [0]) False) None"
  let ?mic = "\<lparr>shape = [1024, 1], flat = replicate 1024 0\<rparr>"
  have h1: "is_ready (rt_converter ?g)"
    by (simp add: stub_defs is_ready_def)
  have h2: "is_realtime_processing_active ?g"
    by (simp add: stub_defs)
  have h3: "tgt_sr (rt_converter ?g) \<noteq> None"
    by (simp add: stub_defs)
  have c: "audio_processing_callback stub_libs ?g ?mic = Inl NameError"
    by (simp add: audio_processing_callback_def stub_defs is_ready_def then_do_simps Let_def)
  from audio_processing_callback_raises
         [OF h1 h2 h3, where lib = stub_libs and mic = ?mic
            and outdata = "\<lparr>shape = [1024, 1], flat = replicate 1024 1\<rparr>"] c
  show ?thesis by (simp add: fill_zero_def)
qed

section \<open>Properties of the pitch quantisation\<close>

lemma rint_bounds:
  assumes "1 \<le> x" and "x \<le> 255"
  shows "1 \<le> rint x \<and> rint x \<le> 255"
proof -
  define f where "f = \<lfloor>x\<rfloor>"
  have lo: "1 \<le> f" using assms(1) by (simp add: f_def le_floor_iff)
  have hi: "f \<le> 255" using assms(2) by (simp add: f_def floor_le_iff)
  have up: "f + 1 \<le> 255" if "0 < x - of_int f"
  proof -
    have "of_int f < x" using that by simp
    then have "of_int f < (255::real)" using assms(2) by linarith
    then have "f < 255" by linarith
    then show ?thesis by simp
  qed
  show ?thesis
    unfolding rint_def Let_def f_def[symmetric]
    using lo hi up by auto
qed

lemma f0_mel_clamped_cases:
  "f0_mel_clamped a b f = NaN \<or> (\<exists>x. f0_mel_clamped a b f = Fin x \<and> 1 \<le> x \<and> x \<le> 255)"
  unfolding f0_mel_clamped_def Let_def
  by (cases "f0_to_mel f"; cases "mel_rescale a b (f0_to_mel f)") (auto split: if_splits)

lemma f0_to_mel_not_nan: "- 700 \<le> f \<Longrightarrow> f0_to_mel f \<noteq> NaN"
  by (auto simp: f0_to_mel_def np_log_def)

lemma mel_rescale_not_nan: "a \<noteq> b \<Longrightarrow> m \<noteq> NaN \<Longrightarrow> mel_rescale a b m \<noteq> NaN"
  by (cases m) (auto simp: Let_def)

lemma f0_mel_clamped_not_nan: "a \<noteq> b \<Longrightarrow> - 700 \<le> f \<Longrightarrow> f0_mel_clamped a b f \<noteq> NaN"
  unfolding f0_mel_clamped_def Let_def
  using f0_to_mel_not_nan[of f] mel_rescale_not_nan[of a b "f0_to_mel f"]
  by (auto split: if_splits)

lemma coarse_of_zero: "rint_astype_int (f0_mel_clamped a b 0) = Some 1"
  by (simp add: f0_mel_clamped_def f0_to_mel_def np_log_def rint_def)

text \<open>
  Claim C5, as amended. For a fine-pitch sequence whose values are all at least -700 Hz
  (every non-negative sequence is one), and mel bounds that differ, each coarse value is
  an integer between 1 and 255; a fine value of zero gives bucket 1, whatever the other
  values and the bounds are.
\<close>

theorem f0_course_in_range:
  "(mel_min \<noteq> mel_max \<and> (\<forall>f\<in>set f0_fine. - 700 \<le> f) \<longrightarrow>
      (\<forall>c\<in>set (f0_course_of mel_min mel_max f0_fine). \<exists>k. c = Some k \<and> 1 \<le> k \<and> k \<le> 255)) \<and>
   (\<forall>i<length f0_fine. f0_fine ! i = 0 \<longrightarrow>
      f0_course_of mel_min mel_max f0_fine ! i = Some 1)"
proof (intro conjI impI ballI allI)
  fix c
  assume h: "mel_min \<noteq> mel_max \<and> (\<forall>f\<in>set f0_fine. - 700 \<le> f)"
    and c: "c \<in> set (f0_course_of mel_min mel_max f0_fine)"
  from c obtain f where f: "f \<in> set f0_fine"
    and cf: "c = rint_astype_int (f0_mel_clamped mel_min mel_max f)"
    by (auto simp: f0_course_of_def)
  from h f have "f0_mel_clamped mel_min mel_max f \<noteq> NaN"
    by (simp add: f0_mel_clamped_not_nan)
  with f0_mel_clamped_cases[of mel_min mel_max f]
  obtain x where x: "f0_mel_clamped mel_min mel_max f = Fin x" "1 \<le> x" "x \<le> 255"
    by auto
  then show "\<exists>k. c = Some k \<and> 1 \<le> k \<and> k \<le> 255"
    using rint_bounds[of x] cf by simp
next
  fix i
  assume "i < length f0_fine" and "f0_fine ! i = 0"
  then show "f0_course_of mel_min mel_max f0_fine ! i = Some 1"
    by (simp add: f0_course_of_def coarse_of_zero)
qed

theorem f0_course_in_range_witness:
  "f0_course_of (f0_mel_min stub_pipeline) (f0_mel_max stub_pipeline) [0, 440, - 100] ! 0
     = Some 1 \<and>
   (\<exists>k. f0_course_of (f0_mel_min stub_pipeline) (f0_mel_max stub_pipeline) [0, 440, - 100] ! 1
          = Some k \<and> 1 \<le> k \<and> k \<le> 255) \<and>
   (\<exists>k. f0_course_of (f0_mel_min stub_pipeline) (f0_mel_max stub_pipeline) [0, 440, - 100] ! 2
          = Some k \<and> 1 \<le> k \<and> k \<le> 255)"
proof -
  let ?c = "f0_course_of (f0_mel_min stub_pipeline) (f0_mel_max stub_pipeline) [0, 440, - 100]"
  have h: "f0_mel_min stub_pipeline \<noteq> f0_mel_max stub_pipeline \<and>
           (\<forall>f\<in>set [0, 440, - 100 :: real]. - 700 \<le> f)"
    by (simp add: stub_pipeline_def)
  have len: "length ?c = 3"
    by (simp add: f0_course_of_def)
  have m1: "?c ! 1 \<in> set ?c" and m2: "?c ! 2 \<in> set ?c"
    using len by (simp_all only: nth_mem)
  note t = f0_course_in_range
             [of "f0_mel_min stub_pipeline" "f0_mel_max stub_pipeline" "[0, 440, - 100]"]
  from t h have r: "\<forall>c\<in>set ?c. \<exists>k. c = Some k \<and> 1 \<le> k \<and> k \<le> 255"
    by blast
  from t have z: "?c ! 0 = Some 1"
    by simp
  from r m1 m2 z show ?thesis
    by blast
qed

text \<open>
  Claim C5 as first stated fails: the finite fine-pitch value -1400 Hz gives the
  logarithm of a negative number, which no later comparison replaces, and the cast of
  not-a-number is no integer between 1 and 255.
\<close>

theorem f0_course_negative_counterexample:
  "f0_to_mel (- 1400) = NaN \<and>
   f0_course_of (f0_mel_min stub_pipeline) (f0_mel_max stub_pipeline) [- 1400] = [None]"
  by (simp add: f0_course_of_def f0_mel_clamped_def f0_to_mel_def np_log_def)

section \<open>Lemmas on broadcasting and on the protection mask\<close>

lemma sequence_map_Inr: "sequence (map Inr xs) = Inr xs"
  by (induction xs) (simp_all add: then_do_simps)

lemma protect_mask_nth:
  "i < length pitchf \<Longrightarrow>
     protect_mask protect pitchf ! i = (if 0 < pitchf ! i then 1 else protect)"
  by (simp add: protect_mask_def Let_def)

lemma protect_mask_length: "length (protect_mask protect pitchf) = length pitchf"
  by (simp add: protect_mask_def)

lemma broadcast2_same: "length xs = length ys \<Longrightarrow> broadcast2 f xs ys = Inr (map2 f xs ys)"
  by (simp add: broadcast2_def)

lemma map2_broadcast_rows:
  assumes "length a = length b" and "\<forall>i<length a. length (a ! i) = length (b ! i)"
  shows "map2 (broadcast2 (+)) a b = map Inr (map2 (map2 (+)) a (b :: real list list))"
  using assms
proof (induction a arbitrary: b)
  case Nil
  then show ?case by simp
next
  case (Cons x a)
  then obtain y b' where b: "b = y # b'" by (cases b) auto
  from Cons.prems b have len: "length a = length b'" by simp
  from Cons.prems(2) b have hd: "length x = length y" by auto
  from Cons.prems(2) b have tl: "\<forall>i<length a. length (a ! i) = length (b' ! i)" by auto
  show ?case
    using Cons.IH[OF len tl] hd by (simp add: b broadcast2_same)
qed

lemma pitch_protection_aligned:
  assumes lp: "length fs \<le> length pitchf"
    and lq: "length fs \<le> length prot"
    and ch: "\<forall>i<length fs. length (prot ! i) = length (fs ! i)"
  shows "pitch_protection protect fs prot pitchf =
           Inr (map (\<lambda>i. map2 (\<lambda>v w. v * (protect_mask protect pitchf ! i)
                                      + w * (1 - protect_mask protect pitchf ! i))
                            (fs ! i) (prot ! i))
                  [0..<length fs])"
proof -
  define T where "T = length fs"
  define m where "m = take T (protect_mask protect pitchf)"
  define a where "a = map2 (\<lambda>fr k. map (\<lambda>v. v * k) fr) fs m"
  define b where "b = map2 (\<lambda>fr k. map (\<lambda>v. v * (1 - k)) fr) (take T prot) m"
  have lm: "length m = T" using lp by (simp add: m_def T_def protect_mask_length min_def)
  have lt: "length (take T prot) = T" using lq by (simp add: T_def min_def)
  have la: "length a = T" by (simp add: a_def lm T_def)
  have lb: "length b = T" using lm lt by (simp add: b_def)
  have rows: "\<forall>i<length a. length (a ! i) = length (b ! i)"
    using ch lm lt by (simp add: a_def b_def T_def)
  have s1: "broadcast2 (\<lambda>fr k. map (\<lambda>v. v * k) fr) fs m = Inr a"
    by (simp add: broadcast2_same lm T_def a_def)
  have s2: "broadcast2 (\<lambda>fr k. map (\<lambda>v. v * (1 - k)) fr) (take T prot) m = Inr b"
    using lm lt by (simp add: broadcast2_same b_def)
  have s3: "broadcast2 (broadcast2 (+)) a b = Inr (map Inr (map2 (map2 (+)) a b))"
    using map2_broadcast_rows[OF _ rows] la lb by (simp add: broadcast2_same)
  have res: "pitch_protection protect fs prot pitchf = Inr (map2 (map2 (+)) a b)"
    unfolding pitch_protection_def Let_def
    apply (fold T_def)
    apply (fold m_def)
    by (simp only: s1 s2 s3 then_do_simps sequence_map_Inr)
  have "map2 (map2 (+)) a b =
        map (\<lambda>i. map2 (\<lambda>v w. v * (protect_mask protect pitchf ! i)
                                      + w * (1 - protect_mask protect pitchf ! i))
                            (fs ! i) (prot ! i)) [0..<length fs]"
  proof (rule nth_equalityI)
    show "length (map2 (map2 (+)) a b) = length (map (\<lambda>i. map2 (\<lambda>v w. v * (protect_mask protect pitchf ! i)
                                      + w * (1 - protect_mask protect pitchf ! i))
                            (fs ! i) (prot ! i)) [0..<length fs])"
      by (simp add: la lb T_def)
  next
    fix i assume "i < length (map2 (map2 (+)) a b)"
    then have i: "i < T" by (simp add: la lb)
    have mi: "m ! i = protect_mask protect pitchf ! i" using i by (simp add: m_def)
    have ai: "a ! i = map (\<lambda>v. v * m ! i) (fs ! i)" using i lm by (simp add: a_def T_def)
    have bi: "b ! i = map (\<lambda>v. v * (1 - m ! i)) (prot ! i)" using i lm lt by (simp add: b_def)
    have "map2 (+) (a ! i) (b ! i) = map2 (\<lambda>v w. v * m ! i + w * (1 - m ! i)) (fs ! i) (prot ! i)"
      unfolding ai bi by (simp add: zip_map1 zip_map2 map_zip_map map_zip_map2 case_prod_unfold)
    then show "map2 (map2 (+)) a b ! i = map (\<lambda>i. map2 (\<lambda>v w. v * (protect_mask protect pitchf ! i)
                                      + w * (1 - protect_mask protect pitchf ! i))
                            (fs ! i) (prot ! i)) [0..<length fs] ! i"
      using i la lb mi by (simp add: T_def)
  qed
  with res show ?thesis by simp
qed

section \<open>Properties of the preparation of the generator's arguments\<close>








section \<open>Properties of the voiceless protection\<close>

text \<open>
  Claim C7. The mask built from the fine pitch is 1 at every frame whose pitch is above
  zero and the protection strength at every other frame. When the frames of the two
  feature sequences and of the pitch line up, the protected features are, frame by frame
  and channel by channel, the mask times the retrieval-mixed features plus one minus the
  mask times the copy taken before retrieval. On a session that uses pitch, with a
  protection strength below 0.5, these are the features the generator is given.
\<close>

theorem voiceless_protection_blend:
  "(\<forall>i<length pitchf.
      protect_mask protect pitchf ! i = (if 0 < pitchf ! i then 1 else protect)) \<and>
   (length fs \<le> length pitchf \<and> length fs \<le> length prot \<and>
    (\<forall>i<length fs. length (prot ! i) = length (fs ! i)) \<longrightarrow>
      pitch_protection protect fs prot pitchf =
        Inr (map (\<lambda>i. map2 (\<lambda>v w. v * (if 0 < pitchf ! i then 1 else protect)
                                    + w * (1 - (if 0 < pitchf ! i then 1 else protect)))
                          (fs ! i) (prot ! i))
               [0..<length fs])) \<and>
   (use_f0 s = Some True \<and> protect < 0.5 \<and>
    embed s h audio_padded = Inr feats0 \<and> retrieval s vc rate feats0 = Inr feats1 \<and>
    interpolate2 feats1 = Inr feats2 \<and> interpolate2 feats0 = Inr prot_up \<longrightarrow>
      prepare_generation s h vc rate protect (Some (c, f)) p_len audio_padded =
        then_do (pitch_protection protect feats2 prot_up (take (min (length feats2) p_len) f))
          (\<lambda>feats3.
             Inr \<lparr>g_feats = feats3, g_p_len = min (length feats2) p_len,
                  g_pitch = Some (take (min (length feats2) p_len) c),
                  g_pitchf = Some (take (min (length feats2) p_len) f),
                  g_sid = sid_tensor s\<rparr>))"
proof (intro conjI impI allI)
  fix i assume "i < length pitchf"
  then show "protect_mask protect pitchf ! i = (if 0 < pitchf ! i then 1 else protect)"
    by (rule protect_mask_nth)
next
  assume h: "length fs \<le> length pitchf \<and> length fs \<le> length prot \<and>
             (\<forall>i<length fs. length (prot ! i) = length (fs ! i))"
  then have "pitch_protection protect fs prot pitchf =
           Inr (map (\<lambda>i. map2 (\<lambda>v w. v * (protect_mask protect pitchf ! i)
                                      + w * (1 - protect_mask protect pitchf ! i))
                            (fs ! i) (prot ! i))
                  [0..<length fs])"
    by (simp add: pitch_protection_aligned)
  also have "map (\<lambda>i. map2 (\<lambda>v w. v * (protect_mask protect pitchf ! i)
                                      + w * (1 - protect_mask protect pitchf ! i))
                            (fs ! i) (prot ! i)) [0..<length fs]
           = map (\<lambda>i. map2 (\<lambda>v w. v * (if 0 < pitchf ! i then 1 else protect)
                                    + w * (1 - (if 0 < pitchf ! i then 1 else protect)))
                          (fs ! i) (prot ! i)) [0..<length fs]"
    using h by (intro map_cong refl) (simp add: protect_mask_nth)
  finally show "pitch_protection protect fs prot pitchf =
        Inr (map (\<lambda>i. map2 (\<lambda>v w. v * (if 0 < pitchf ! i then 1 else protect)
                                    + w * (1 - (if 0 < pitchf ! i then 1 else protect)))
                          (fs ! i) (prot ! i))
               [0..<length fs])" .
next
  assume "use_f0 s = Some True \<and> protect < 0.5 \<and>
    embed s h audio_padded = Inr feats0 \<and> retrieval s vc rate feats0 = Inr feats1 \<and>
    interpolate2 feats1 = Inr feats2 \<and> interpolate2 feats0 = Inr prot_up"
  then show "prepare_generation s h vc rate protect (Some (c, f)) p_len audio_padded =
        then_do (pitch_protection protect feats2 prot_up (take (min (length feats2) p_len) f))
          (\<lambda>feats3.
             Inr \<lparr>g_feats = feats3, g_p_len = min (length feats2) p_len,
                  g_pitch = Some (take (min (length feats2) p_len) c),
                  g_pitchf = Some (take (min (length feats2) p_len) f),
                  g_sid = sid_tensor s\<rparr>)"
    by (simp add: prepare_generation_def then_do_simps Let_def)
qed

theorem voiceless_protection_blend_witness:
  "protect_mask 0.25 [100, 0] = [1, 0.25] \<and>
   pitch_protection 0.25 [[1, 2], [3, 4]] [[5, 6], [7, 8]] [100, 0] = Inr [[1, 2], [6, 7]] \<and>
   prepare_generation (stub_session stub_hubert (constant_generator [0]) True) stub_hubert stub_pipeline
       0.75 0.25 (Some ([Some 1, Some 1, Some 1, Some 1, Some 1], [100, 0, 50, 0, 0])) 5
       (np_zeros 800)
     = Inr \<lparr>g_feats = [[1, 2], [1, 2], [3, 4], [3, 4]], g_p_len = 4,
            g_pitch = Some [Some 1, Some 1, Some 1, Some 1], g_pitchf = Some [100, 0, 50, 0],
            g_sid = Some 0\<rparr>"
proof -
  let ?s = "stub_session stub_hubert (constant_generator [0]) True"
  let ?up = "[[1, 2], [1, 2], [3, 4], [3, 4 :: real]]"
  have m: "protect_mask 0.25 [100, 0] = [1, 0.25]"
    by (simp add: protect_mask_def)
  have a: "length [[1, 2], [3, 4 :: real]] \<le> length [100, 0 :: real] \<and>
           length [[1, 2], [3, 4 :: real]] \<le> length [[5, 6], [7, 8 :: real]] \<and>
           (\<forall>i<length [[1, 2], [3, 4 :: real]].
              length ([[5, 6], [7, 8 :: real]] ! i) = length ([[1, 2], [3, 4 :: real]] ! i))"
    by (simp add: less_Suc_eq)
  have b: "use_f0 ?s = Some True \<and> (0.25 :: real) < 0.5 \<and>
           embed ?s stub_hubert (np_zeros 800) = Inr [[1, 2], [3, 4]] \<and>
           retrieval ?s stub_pipeline 0.75 [[1, 2], [3, 4]] = Inr [[1, 2], [3, 4]] \<and>
           interpolate2 [[1, 2], [3, 4]] = Inr ?up \<and> interpolate2 [[1, 2], [3, 4]] = Inr ?up"
    by (simp add: stub_defs embed_def retrieval_def interpolate2_def then_do_simps)
  have p: "pitch_protection 0.25 ?up ?up [100, 0, 50, 0] = Inr ?up"
    by (simp add: pitch_protection_aligned protect_mask_def less_Suc_eq algebra_simps)
  note t = voiceless_protection_blend
             [of "[100, 0]" "0.25" "[[1, 2], [3, 4]]" "[[5, 6], [7, 8]]" ?s stub_hubert
                 "np_zeros 800" "[[1, 2], [3, 4]]" stub_pipeline "0.75" "[[1, 2], [3, 4]]"
                 ?up ?up "[Some 1, Some 1, Some 1, Some 1, Some 1]" "[100, 0, 50, 0, 0]" 5]
  from t a have "pitch_protection 0.25 [[1, 2], [3, 4]] [[5, 6], [7, 8]] [100, 0]
                   = Inr [[1, 2], [6, 7]]"
    by simp
  moreover from t b p have "prepare_generation ?s stub_hubert stub_pipeline
       0.75 0.25 (Some ([Some 1, Some 1, Some 1, Some 1, Some 1], [100, 0, 50, 0, 0])) 5
       (np_zeros 800)
     = Inr \<lparr>g_feats = ?up, g_p_len = 4,
            g_pitch = Some [Some 1, Some 1, Some 1, Some 1], g_pitchf = Some [100, 0, 50, 0],
            g_sid = Some 0\<rparr>"
    by (simp add: then_do_simps stub_defs)
  ultimately show ?thesis using m by simp
qed

section \<open>Properties of the trim fallback\<close>

lemma peak_normalize_zeros: "0 < n \<Longrightarrow> peak_normalize (replicate n 0) = Inr (replicate n 0)"
  by (simp add: peak_normalize_def)

lemma peak_normalize_quiet:
  assumes "xs \<noteq> []" and "\<forall>x\<in>set xs. \<bar>x\<bar> \<le> 0.99"
  shows "peak_normalize xs = Inr xs"
proof -
  have "Max (set (map abs xs)) \<le> 0.99"
    using assms by (subst Max_le_iff) auto
  then have "\<not> 1 < Max (set (map abs xs)) / 0.99" by simp
  then show ?thesis using assms(1) by (simp add: peak_normalize_def Let_def)
qed

lemma trim_output_short:
  assumes "length audio_out \<le> 2 * t_pad_tgt vc"
    and "expected_out_len s vc chunk = Inr e"
  shows "trim_output s vc chunk audio_out =
           Inr (if real (length audio_out) < real_of_int e / 2 then replicate (nat e) 0
                else audio_out)"
proof -
  have "real (length audio_out) < real_of_int e / 2 \<Longrightarrow> \<not> e < 0"
    by (smt (verit) of_nat_0_le_iff of_int_less_0_iff divide_less_0_iff)
  then show ?thesis
    using assms by (auto simp: trim_output_def Let_def then_do_simps)
qed

text \<open>
  Claim C6, as amended. When the raw waveform is too short to trim (its length is at most
  twice the trim width) and the expected length can be computed, the trim step does not
  raise: it yields silence of the expected length when the raw output is shorter than
  half of it, and the raw output otherwise. With an envelope mix outside \<open>[0, 1)\<close>,
  \<open>process_chunk\<close> then returns the silence block as it is, and the raw output after
  peak normalisation: unchanged when it is not empty and its peak is at most 0.99.
\<close>

theorem finish_chunk_short_output:
  assumes short: "length audio_out \<le> 2 * t_pad_tgt vc"
    and exp: "expected_out_len s vc chunk = Inr e"
    and nomix: "\<not> (mix < 1 \<and> 0 \<le> mix)"
  shows "trim_output s vc chunk audio_out =
           Inr (if real (length audio_out) < real_of_int e / 2 then replicate (nat e) 0
                else audio_out) \<and>
         (real (length audio_out) < real_of_int e / 2 \<longrightarrow>
            finish_chunk lib s vc chunk mix audio_out = Inr (np_zeros (nat e))) \<and>
         (\<not> real (length audio_out) < real_of_int e / 2 \<longrightarrow>
            finish_chunk lib s vc chunk mix audio_out
              = then_do (peak_normalize audio_out) (\<lambda>a. Inr (array1 a)) \<and>
            (audio_out \<noteq> [] \<and> (\<forall>x\<in>set audio_out. \<bar>x\<bar> \<le> 0.99) \<longrightarrow>
               finish_chunk lib s vc chunk mix audio_out = Inr (array1 audio_out)))"
proof -
  note t = trim_output_short[OF short exp]
  have v: "volume_envelope lib s vc chunk mix xs = Inr xs" for xs
    using nomix by (auto simp: volume_envelope_def)
  have a: "finish_chunk lib s vc chunk mix audio_out = Inr (np_zeros (nat e))"
    if h: "real (length audio_out) < real_of_int e / 2"
  proof -
    have "0 < e" using h by (smt (verit) of_nat_0_le_iff divide_nonpos_pos of_int_le_0_iff)
    then have "0 < nat e" by simp
    then show ?thesis
      using h by (simp add: finish_chunk_def t v then_do_simps peak_normalize_zeros np_zeros_def array1_def)
  qed
  have b: "finish_chunk lib s vc chunk mix audio_out = then_do (peak_normalize audio_out) (\<lambda>a. Inr (array1 a))"
    if h: "\<not> real (length audio_out) < real_of_int e / 2"
    using h by (simp add: finish_chunk_def t v then_do_simps)
  show ?thesis
    using t a b by (auto simp: peak_normalize_quiet then_do_simps)
qed

theorem finish_chunk_short_output_witness:
  "finish_chunk stub_libs (stub_session stub_hubert (constant_generator [0]) False) stub_pipeline
       (np_zeros 4) 1 [0.5] = Inr (np_zeros 12) \<and>
   finish_chunk stub_libs (stub_session stub_hubert (constant_generator [0]) False) stub_pipeline
       (np_zeros 4) 1 [0.5, 0.5, 0.5, 0.5, 0.5, 0.5]
     = Inr (array1 [0.5, 0.5, 0.5, 0.5, 0.5, 0.5])"
proof -
  let ?s = "stub_session stub_hubert (constant_generator [0]) False"
  have e: "expected_out_len ?s stub_pipeline (np_zeros 4) = Inr 12"
    by (simp add: expected_out_len_def py_len_def py_int_def np_zeros_def stub_defs
          then_do_simps)
  have m: "\<not> ((1 :: real) < 1 \<and> (0 :: real) \<le> 1)"
    by simp
  have s1: "length [0.5 :: real] \<le> 2 * t_pad_tgt stub_pipeline"
    by (simp add: stub_pipeline_def)
  have s6: "length [0.5, 0.5, 0.5, 0.5, 0.5, 0.5 :: real] \<le> 2 * t_pad_tgt stub_pipeline"
    by (simp add: stub_pipeline_def)
  from finish_chunk_short_output [OF s1 e m, of stub_libs]
  have a: "finish_chunk stub_libs ?s stub_pipeline (np_zeros 4) 1 [0.5] = Inr (np_zeros 12)"
    by simp
  have q: "\<not> real (length [0.5, 0.5, 0.5, 0.5, 0.5, 0.5 :: real]) < real_of_int 12 / 2"
    by simp
  have n: "[0.5, 0.5, 0.5, 0.5, 0.5, 0.5 :: real] \<noteq> [] \<and>
           (\<forall>x\<in>set [0.5, 0.5, 0.5, 0.5, 0.5, 0.5 :: real]. \<bar>x\<bar> \<le> 0.99)"
    by simp
  from finish_chunk_short_output [OF s6 e m, of stub_libs] q n
  have b: "finish_chunk stub_libs ?s stub_pipeline (np_zeros 4) 1 [0.5, 0.5, 0.5, 0.5, 0.5, 0.5]
             = Inr (array1 [0.5, 0.5, 0.5, 0.5, 0.5, 0.5])"
    by blast
  from a b show ?thesis by simp
qed

text \<open>
  Claim C6 as first stated fails: a generator that returns 600 samples of value 2 for a
  block of 342 samples (expected length 1026, trim width 48000) is in the fallback and
  not below half the expected length, yet \<open>process_chunk\<close> returns 600 samples of value
  0.99 and not the raw output.
\<close>

theorem short_output_changed_counterexample:
  "trim_output (stub_session stub_hubert (constant_generator (replicate 600 2)) False)
       stub_pipeline (np_zeros 342) (replicate 600 2) = Inr (replicate 600 2) \<and>
   process_chunk stub_libs (stub_session stub_hubert (constant_generator (replicate 600 2)) False)
       (np_zeros 342) 0 ''rmvpe'' 0.75 0.33 False 0.8 1
     = Inr (array1 (replicate 600 0.99)) \<and>
   process_chunk stub_libs (stub_session stub_hubert (constant_generator (replicate 600 2)) False)
       (np_zeros 342) 0 ''rmvpe'' 0.75 0.33 False 0.8 1
     \<noteq> Inr (array1 (replicate 600 2))"
  by (simp add: chunk_defs stub_defs then_do_simps Let_def)

end
